theory Spec2Isabelle
  imports Complex_Main
begin

section \<open>Data model of the SmartAttend server\<close>

text \<open>
  The server keeps its data in three module-level arrays: \<open>users\<close>, \<open>sessions\<close> and
  \<open>students\<close>. Only \<open>sessions\<close> is mutated by the request handlers, so a handler is a
  function from the current \<open>sessions\<close> array to the new one, the JSON reply and the list
  of events passed to \<open>io.emit\<close>. The identities, names and codes that the server
  makes itself are strings; \<open>new Date()\<close>
  and \<open>Date.now()\<close> are read from the environment and modelled as a number of
  milliseconds handed to the handler.

  The type parameter \<open>'v\<close> of the records below is the type of the values that the body
  of a mark request carries and that the handler stores and sends on as they are: the
  participant id and name, and the code echoed in the event. It is \<open>string\<close> where the
  bodies are taken to hold strings, as the spec types them, and the type of all JSON
  values where the body is arbitrary.
\<close>

record user =
  id_u :: string
  username :: string
  role :: string
  name_u :: string
  department_u :: "string option"
  rollNo :: "string option"

record 'v attendanceRecord =
  studentId :: 'v
  studentName :: 'v
  timestamp :: nat
  method_att :: string

record 'v session =
  id_s :: int
  sessionCode :: string
  professorId :: string
  professorName :: string
  className :: string
  qrCode :: string
  isActive :: bool
  startTime :: nat
  endTime :: "nat option"
  attendees :: "'v attendanceRecord list"

record 'v attendanceUpdate =
  ev_sessionCode :: 'v
  ev_studentId :: 'v
  ev_studentName :: 'v
  totalAttendees :: nat
  ev_timestamp :: nat

text \<open>
  The replies of the session handlers: \<open>Status c m\<close> is
  \<open>res.status(c).json({ error: m })\<close>; the other constructors are the bodies sent with
  \<open>res.json\<close> by the start, mark and end handlers.
\<close>

datatype 'v reply =
    Status nat string
  | StartReply bool "'v session" string
  | MarkReply bool string "'v option"
  | EndReply bool string

type_synonym 'v outcome = "'v session list \<times> 'v reply \<times> 'v attendanceUpdate list"

section \<open>Helpers of the language\<close>

text \<open>
  \<open>a || b\<close> on an optional string: the left operand is falsy when it is absent
  (\<open>undefined\<close>) or the empty string.
\<close>

definition js_or :: "string option \<Rightarrow> string \<Rightarrow> string" where
  "js_or v d = (case v of None \<Rightarrow> d | Some s \<Rightarrow> if s = [] then d else s)"

text \<open>
  \<open>Array.prototype.find\<close> returns a reference to the first element that satisfies the
  predicate; the handlers then mutate that element in place. The model finds the index
  of that element.
\<close>

fun findIndex :: "('a \<Rightarrow> bool) \<Rightarrow> 'a list \<Rightarrow> nat option" where
  "findIndex P [] = None"
| "findIndex P (x # xs) = (if P x then Some 0 else map_option Suc (findIndex P xs))"

text \<open>The decimal digits of a non-negative integer, as a template literal prints it.\<close>

definition digit_char :: "nat \<Rightarrow> char" where
  "digit_char d = ''0123456789'' ! d"

fun string_of_nat :: "nat \<Rightarrow> string" where
  "string_of_nat n =
     (if n < 10 then [digit_char n]
      else string_of_nat (n div 10) @ [digit_char (n mod 10)])"

section \<open>Session lifecycle and attendance recording\<close>

text \<open>
  \<open>generateSessionCode\<close> reads \<open>Date.now()\<close> and \<open>Math.random().toString(36)\<close>; the
  second is the string \<open>rnd\<close>, of which \<open>substr(2, 8)\<close> keeps at most eight characters
  after the first two.
\<close>

definition generateSessionCode :: "nat \<Rightarrow> string \<Rightarrow> string" where
  "generateSessionCode dateNow rnd =
     ''ATT-'' @ string_of_nat dateNow @ ''-'' @ take 8 (drop 2 rnd)"

text \<open>
  \<open>POST /api/sessions/start\<close>, after \<open>authenticateToken\<close> has put the token's claims
  into \<open>req.user\<close>. \<open>toDataURL\<close> is the QR codec; \<open>dateNow\<close> and \<open>rnd\<close> are read by
  \<open>generateSessionCode\<close>, \<open>now\<close> is the later \<open>new Date()\<close> of \<open>startTime\<close>.
\<close>

definition start ::
  "(string \<Rightarrow> string) \<Rightarrow> user \<Rightarrow> string option \<Rightarrow> nat \<Rightarrow> string \<Rightarrow> nat \<Rightarrow>
   'v session list \<Rightarrow> 'v outcome" where
  "start toDataURL u cn dateNow rnd now sessions =
     (if role u \<noteq> ''faculty'' then
        (sessions, Status 403 ''Only faculty can start sessions'', [])
      else
        let code = generateSessionCode dateNow rnd;
            qr = toDataURL code;
            s = \<lparr> id_s = int (length sessions) + 1,
                  sessionCode = code,
                  professorId = id_u u,
                  professorName = name_u u,
                  className = js_or cn ''Computer Science 101'',
                  qrCode = qr,
                  isActive = True,
                  startTime = now,
                  endTime = None,
                  attendees = [] \<rparr>
        in (sessions @ [s], StartReply True s qr, []))"

text \<open>
  \<open>POST /api/attendance/mark\<close>; no authentication. Here the body holds a string
  \<open>sessionCode\<close>, a string \<open>studentId\<close> and an optional string \<open>studentName\<close>; the
  handler on an arbitrary JSON body is \<open>mark_json\<close> below.
\<close>

definition mark ::
  "string \<Rightarrow> string \<Rightarrow> string option \<Rightarrow> nat \<Rightarrow> string session list \<Rightarrow> string outcome" where
  "mark code sid sname now sessions =
     (case findIndex (\<lambda>s. sessionCode s = code \<and> isActive s) sessions of
        None \<Rightarrow> (sessions, Status 404 ''Session not found or expired'', [])
      | Some i \<Rightarrow>
          let s = sessions ! i in
          if list_ex (\<lambda>att. studentId att = sid) (attendees s) then
            (sessions, MarkReply True ''Attendance already marked'' None, [])
          else
            let r = \<lparr> studentId = sid,
                      studentName = js_or sname (''Student '' @ sid),
                      timestamp = now,
                      method_att = ''qr'' \<rparr>;
                s' = s\<lparr> attendees := attendees s @ [r] \<rparr>
            in (sessions[i := s'],
                MarkReply True ''Attendance marked successfully'' (Some (studentName r)),
                [\<lparr> ev_sessionCode = code,
                   ev_studentId = sid,
                   ev_studentName = studentName r,
                   totalAttendees = length (attendees s'),
                   ev_timestamp = timestamp r \<rparr>]))"

text \<open>
  \<open>POST /api/sessions/:sessionId/end\<close>, after \<open>authenticateToken\<close>. \<open>sessionId\<close> is the
  result of \<open>parseInt\<close> on the route parameter: \<open>None\<close> is \<open>NaN\<close>, which is
  \<open>===\<close> to no id.
\<close>

definition end_session ::
  "user \<Rightarrow> int option \<Rightarrow> nat \<Rightarrow> 'v session list \<Rightarrow> 'v outcome" where
  "end_session u sessionId now sessions =
     (case findIndex (\<lambda>s. Some (id_s s) = sessionId) sessions of
        None \<Rightarrow> (sessions, Status 404 ''Session not found'', [])
      | Some i \<Rightarrow>
          let s = sessions ! i in
          if professorId s \<noteq> id_u u then (sessions, Status 403 ''Access denied'', [])
          else
            (sessions[i := s\<lparr> isActive := False, endTime := Some now \<rparr>],
             EndReply True ''Session ended successfully'', []))"

text \<open>
  The requests that reach the three handlers, each with what it reads from the
  environment, and the \<open>sessions\<close> array after serving a list of requests in order.
  The server starts with \<open>sessions = []\<close>.
\<close>

datatype request =
    Start user "string option" nat string nat
  | Mark string string "string option" nat
  | End user "int option" nat

fun handle ::
  "(string \<Rightarrow> string) \<Rightarrow> request \<Rightarrow> string session list \<Rightarrow> string outcome" where
  "handle q (Start u cn dateNow rnd now) ss = start q u cn dateNow rnd now ss"
| "handle q (Mark code sid sname now) ss = mark code sid sname now ss"
| "handle q (End u sessionId now) ss = end_session u sessionId now ss"

fun run ::
  "(string \<Rightarrow> string) \<Rightarrow> request list \<Rightarrow> string session list \<Rightarrow> string session list" where
  "run q [] ss = ss"
| "run q (r # rs) ss = run q rs (fst (handle q r ss))"

text \<open>
  The pairs (millisecond, random suffix) from which the starts of a request list that
  pass the role check build their codes, in order.
\<close>

fun code_seeds :: "request list \<Rightarrow> (nat \<times> string) list" where
  "code_seeds [] = []"
| "code_seeds (Start u cn dateNow rnd now # rs) =
     (if role u \<noteq> ''faculty'' then code_seeds rs
      else (dateNow, take 8 (drop 2 rnd)) # code_seeds rs)"
| "code_seeds (r # rs) = code_seeds rs"

section \<open>Analytics over the roster\<close>

text \<open>
  The numbers of the analytics: sums of the roster's integer percentages, their quotient
  by an array length, and \<open>Math.round\<close> of it. A quotient is a rational \<open>Num q\<close>, or
  one of the three values a division by zero gives.
\<close>

datatype jsnum = Num rat | NaN | PosInf | NegInf

definition js_div :: "int \<Rightarrow> nat \<Rightarrow> jsnum" where
  "js_div a b =
     (if b = 0 then (if a = 0 then NaN else if 0 < a then PosInf else NegInf)
      else Num (of_int a / of_nat b))"

definition Math_round :: "jsnum \<Rightarrow> jsnum" where
  "Math_round x = (case x of Num q \<Rightarrow> Num (of_int \<lfloor>q + 1 / 2\<rfloor>) | _ \<Rightarrow> x)"

definition js_ge :: "jsnum \<Rightarrow> int \<Rightarrow> bool" where
  "js_ge x k =
     (case x of Num q \<Rightarrow> of_int k \<le> q | NaN \<Rightarrow> False | PosInf \<Rightarrow> True | NegInf \<Rightarrow> False)"

record student =
  id_st :: string
  name_st :: string
  department :: string
  attendance :: int
  marks :: int

definition students :: "student list" where
  "students =
     [\<lparr> id_st = ''CS001'', name_st = ''Alice Johnson'', department = ''CSE'', attendance = 94, marks = 91 \<rparr>,
      \<lparr> id_st = ''CS002'', name_st = ''Bob Smith'', department = ''CSE'', attendance = 74, marks = 72 \<rparr>,
      \<lparr> id_st = ''CS003'', name_st = ''Carol Davis'', department = ''CSE'', attendance = 80, marks = 78 \<rparr>,
      \<lparr> id_st = ''CS004'', name_st = ''David Wilson'', department = ''CSE'', attendance = 69, marks = 65 \<rparr>,
      \<lparr> id_st = ''EC001'', name_st = ''Eva Brown'', department = ''ECE'', attendance = 88, marks = 85 \<rparr>,
      \<lparr> id_st = ''EC002'', name_st = ''Frank Miller'', department = ''ECE'', attendance = 92, marks = 88 \<rparr>,
      \<lparr> id_st = ''EE001'', name_st = ''Grace Lee'', department = ''EEE'', attendance = 85, marks = 82 \<rparr>,
      \<lparr> id_st = ''IT001'', name_st = ''Henry Taylor'', department = ''IT'', attendance = 91, marks = 89 \<rparr>,
      \<lparr> id_st = ''ME001'', name_st = ''Ivy Anderson'', department = ''MECH'', attendance = 78, marks = 75 \<rparr>]"

record deptAnalytics =
  da_department :: string
  avgAttendance :: jsnum
  atRiskStudents :: nat
  totalStudents :: nat
  remark :: string

record atRiskEntry =
  id_r :: string
  name_r :: string
  attendance_r :: int
  status_r :: string

record hodAnalytics =
  hod_department :: "string option"
  hod_totalStudents :: nat
  hod_avgAttendance :: jsnum
  hod_atRiskStudents :: "atRiskEntry list"

record classStats =
  cs_totalStudents :: nat
  cs_avgAttendance :: jsnum
  avgMarks :: jsnum
  atRiskCount :: nat

datatype analytics_reply =
    Denied nat string
  | PrincipalReply "deptAnalytics list"
  | HodReply hodAnalytics
  | FacultyReply "student list" classStats

definition departments :: "string list" where
  "departments = [''CSE'', ''ECE'', ''EEE'', ''IT'', ''MECH'']"

text \<open>The callback of \<open>departments.map\<close> in \<open>GET /api/analytics/principal\<close>.\<close>

definition deptSummary :: "student list \<Rightarrow> string \<Rightarrow> deptAnalytics" where
  "deptSummary roster dept =
     (let deptStudents = filter (\<lambda>s. department s = dept) roster;
          avg = (if 0 < length deptStudents then
                   Math_round (js_div (foldl (\<lambda>sum s. sum + attendance s) 0 deptStudents)
                                      (length deptStudents))
                 else Num 0);
          atRisk = length (filter (\<lambda>s. attendance s < 75) deptStudents)
      in \<lparr> da_department = dept,
           avgAttendance = avg,
           atRiskStudents = atRisk,
           totalStudents = length deptStudents,
           remark = (if js_ge avg 85 then ''Excellent''
                     else if js_ge avg 75 then ''Good'' else ''Needs Improvement'') \<rparr>)"

definition principal_analytics :: "student list \<Rightarrow> user \<Rightarrow> analytics_reply" where
  "principal_analytics roster u =
     (if role u \<noteq> ''principal'' then Denied 403 ''Access denied''
      else PrincipalReply (map (deptSummary roster) departments))"

text \<open>
  \<open>GET /api/analytics/hod\<close> and \<open>GET /api/analytics/faculty\<close>: the department of the
  token may be absent, and then \<open>===\<close> holds for no roster entry.
\<close>

definition hod_analytics :: "student list \<Rightarrow> user \<Rightarrow> analytics_reply" where
  "hod_analytics roster u =
     (if role u \<noteq> ''hod'' then Denied 403 ''Access denied''
      else
        let deptStudents = filter (\<lambda>s. Some (department s) = department_u u) roster;
            atRisk = filter (\<lambda>s. attendance s < 75) deptStudents
        in HodReply
             \<lparr> hod_department = department_u u,
               hod_totalStudents = length deptStudents,
               hod_avgAttendance =
                 Math_round (js_div (foldl (\<lambda>sum s. sum + attendance s) 0 deptStudents)
                                    (length deptStudents)),
               hod_atRiskStudents =
                 map (\<lambda>s. \<lparr> id_r = id_st s,
                              name_r = name_st s,
                              attendance_r = attendance s,
                              status_r = (if attendance s < 60 then ''Critical''
                                          else if attendance s < 70 then ''Warning''
                                          else ''Needs Counseling'') \<rparr>) atRisk \<rparr>)"

definition faculty_analytics :: "student list \<Rightarrow> user \<Rightarrow> analytics_reply" where
  "faculty_analytics roster u =
     (if role u \<noteq> ''faculty'' then Denied 403 ''Access denied''
      else
        let facultyStudents = filter (\<lambda>s. Some (department s) = department_u u) roster
        in FacultyReply facultyStudents
             \<lparr> cs_totalStudents = length facultyStudents,
               cs_avgAttendance =
                 Math_round (js_div (foldl (\<lambda>sum s. sum + attendance s) 0 facultyStudents)
                                    (length facultyStudents)),
               avgMarks =
                 Math_round (js_div (foldl (\<lambda>sum s. sum + marks s) 0 facultyStudents)
                                    (length facultyStudents)),
               atRiskCount = length (filter (\<lambda>s. attendance s < 75) facultyStudents) \<rparr>)"

section \<open>Mark requests with an arbitrary JSON body\<close>

text \<open>
  The mark handler is not authenticated and does not validate its body:
  \<open>express.json\<close> hands it whatever JSON the client sent, so each of \<open>sessionCode\<close>,
  \<open>studentId\<close> and \<open>studentName\<close> is absent (\<open>undefined\<close>) or any JSON value.
\<close>

datatype jsvalue =
    Undefined
  | JNull
  | JBool bool
  | JNum jsnum
  | JStr string
  | JArr "jsvalue list"
  | JObj "(string \<times> jsvalue) list"

text \<open>
  \<open>a === b\<close> where \<open>a\<close> is a value of the server's own or one stored from an earlier
  request, and \<open>b\<close> comes from the body of the current request. Primitive values are
  compared by value, and \<open>NaN\<close> is equal to nothing. An array or an object is compared
  by reference, and the parser builds new ones for every body, so none of them is
  identical to a value stored before.
\<close>

fun strict_eq :: "jsvalue \<Rightarrow> jsvalue \<Rightarrow> bool" where
  "strict_eq Undefined Undefined = True"
| "strict_eq JNull JNull = True"
| "strict_eq (JBool a) (JBool b) = (a = b)"
| "strict_eq (JNum a) (JNum b) = (a = b \<and> a \<noteq> NaN)"
| "strict_eq (JStr a) (JStr b) = (a = b)"
| "strict_eq a b = False"

text \<open>The values that \<open>||\<close> takes for true.\<close>

fun truthy :: "jsvalue \<Rightarrow> bool" where
  "truthy Undefined = False"
| "truthy JNull = False"
| "truthy (JBool b) = b"
| "truthy (JNum n) = (n \<noteq> NaN \<and> n \<noteq> Num 0)"
| "truthy (JStr s) = (s \<noteq> [])"
| "truthy (JArr xs) = True"
| "truthy (JObj kvs) = True"

text \<open>
  The text that the template literal puts for \<open>${studentId}\<close>: a string stands for
  itself. The conversion of any other value is the language's and is the parameter
  \<open>toStr\<close>; it gives the text, \<open>Inr t\<close>, or throws an error with message \<open>m\<close>,
  \<open>Inl m\<close>.
\<close>

definition template_text :: "(jsvalue \<Rightarrow> string + string) \<Rightarrow> jsvalue \<Rightarrow> string + string" where
  "template_text toStr v = (case v of JStr s \<Rightarrow> Inr s | _ \<Rightarrow> toStr v)"

text \<open>
  \<open>POST /api/attendance/mark\<close> on an arbitrary body. The record is built before it is
  pushed, so an error thrown by the template literal reaches the \<open>catch\<close>, which
  answers 500 with the error's message, before anything is stored or emitted.
\<close>

definition mark_json ::
  "(jsvalue \<Rightarrow> string + string) \<Rightarrow> jsvalue \<Rightarrow> jsvalue \<Rightarrow> jsvalue \<Rightarrow> nat \<Rightarrow>
   jsvalue session list \<Rightarrow> jsvalue outcome" where
  "mark_json toStr code sid sname now sessions =
     (case findIndex (\<lambda>s. strict_eq (JStr (sessionCode s)) code \<and> isActive s) sessions of
        None \<Rightarrow> (sessions, Status 404 ''Session not found or expired'', [])
      | Some i \<Rightarrow>
          let s = sessions ! i in
          if list_ex (\<lambda>att. strict_eq (studentId att) sid) (attendees s) then
            (sessions, MarkReply True ''Attendance already marked'' None, [])
          else
            (case (if truthy sname then Inr sname
                   else case template_text toStr sid of
                          Inl m \<Rightarrow> Inl m
                        | Inr t \<Rightarrow> Inr (JStr (''Student '' @ t))) of
               Inl m \<Rightarrow> (sessions, Status 500 m, [])
             | Inr name \<Rightarrow>
                 let r = \<lparr> studentId = sid,
                           studentName = name,
                           timestamp = now,
                           method_att = ''qr'' \<rparr>;
                     s' = s\<lparr> attendees := attendees s @ [r] \<rparr>
                 in (sessions[i := s'],
                     MarkReply True ''Attendance marked successfully'' (Some (studentName r)),
                     [\<lparr> ev_sessionCode = code,
                        ev_studentId = sid,
                        ev_studentName = studentName r,
                        totalAttendees = length (attendees s'),
                        ev_timestamp = timestamp r \<rparr>])))"





text \<open>
  A body of strings as a JSON body, and the registry, replies and events of the
  handler on strings as those of the handler on JSON.
\<close>

definition json_of_name :: "string option \<Rightarrow> jsvalue" where
  "json_of_name sname = (case sname of None \<Rightarrow> Undefined | Some n \<Rightarrow> JStr n)"

definition json_of_record :: "string attendanceRecord \<Rightarrow> jsvalue attendanceRecord" where
  "json_of_record r =
     \<lparr> studentId = JStr (studentId r), studentName = JStr (studentName r),
       timestamp = timestamp r, method_att = method_att r \<rparr>"

definition json_of_session :: "string session \<Rightarrow> jsvalue session" where
  "json_of_session s =
     \<lparr> id_s = id_s s, sessionCode = sessionCode s, professorId = professorId s,
       professorName = professorName s, className = className s, qrCode = qrCode s,
       isActive = isActive s, startTime = startTime s, endTime = endTime s,
       attendees = map json_of_record (attendees s) \<rparr>"

definition json_of_event :: "string attendanceUpdate \<Rightarrow> jsvalue attendanceUpdate" where
  "json_of_event e =
     \<lparr> ev_sessionCode = JStr (ev_sessionCode e), ev_studentId = JStr (ev_studentId e),
       ev_studentName = JStr (ev_studentName e), totalAttendees = totalAttendees e,
       ev_timestamp = ev_timestamp e \<rparr>"

fun json_of_reply :: "string reply \<Rightarrow> jsvalue reply" where
  "json_of_reply (Status c m) = Status c m"
| "json_of_reply (StartReply ok s qr) = StartReply ok (json_of_session s) qr"
| "json_of_reply (MarkReply ok m n) = MarkReply ok m (map_option JStr n)"
| "json_of_reply (EndReply ok m) = EndReply ok m"

section \<open>Concrete inputs\<close>

text \<open>
  Three of the demo users of \<open>initializeDemoData\<close>, as the claims of their tokens, a
  second faculty account and a department head whose departments have no roster entry,
  a codec, and a registry with one running session.
\<close>

definition demo_faculty :: user where
  "demo_faculty = \<lparr> id_u = ''3'', username = ''faculty'', role = ''faculty'',
                    name_u = ''Dr. Faculty'', department_u = Some ''CSE'', rollNo = None \<rparr>"

definition demo_student :: user where
  "demo_student = \<lparr> id_u = ''4'', username = ''student'', role = ''student'',
                    name_u = ''Alice Johnson'', department_u = None, rollNo = Some ''CS001'' \<rparr>"

definition other_faculty :: user where
  "other_faculty = \<lparr> id_u = ''7'', username = ''faculty2'', role = ''faculty'',
                     name_u = ''Dr. Other'', department_u = Some ''BIO'', rollNo = None \<rparr>"

definition demo_principal :: user where
  "demo_principal = \<lparr> id_u = ''1'', username = ''principal'', role = ''principal'',
                      name_u = ''Dr. Principal'', department_u = None, rollNo = None \<rparr>"

definition civil_hod :: user where
  "civil_hod = \<lparr> id_u = ''8'', username = ''hod2'', role = ''hod'',
                 name_u = ''Prof. Civil'', department_u = Some ''CIVIL'', rollNo = None \<rparr>"

definition demo_codec :: "string \<Rightarrow> string" where
  "demo_codec code = ''data:image/png;base64,'' @ code"

definition demo_registry :: "string session list" where
  "demo_registry = fst (start demo_codec demo_faculty None 1000 ''0.4fzyo82mvyr'' 1001 [])"



text \<open>
  Two start requests that read the same millisecond from \<open>Date.now()\<close> and the same
  string from \<open>Math.random().toString(36)\<close>.
\<close>

definition colliding_starts :: "request list" where
  "colliding_starts =
     [Start demo_faculty None 1000 ''0.4fzyo82mvyr'' 1001,
      Start other_faculty (Some ''Biology 201'') 1000 ''0.4fzyo82mvyr'' 1002]"

section \<open>Facts about the helpers\<close>

lemma findIndex_None: "findIndex P xs = None \<longleftrightarrow> (\<forall>x \<in> set xs. \<not> P x)"
  by (induction xs) auto

lemma findIndex_Some:
  "findIndex P xs = Some i \<Longrightarrow> i < length xs \<and> P (xs ! i) \<and> (\<forall>j < i. \<not> P (xs ! j))"
proof (induction xs arbitrary: i)
  case Nil
  then show ?case by simp
next
  case (Cons x xs)
  show ?case
  proof (cases "P x")
    case True
    with Cons.prems show ?thesis by simp
  next
    case False
    with Cons.prems obtain k where k: "findIndex P xs = Some k" "i = Suc k"
      by auto
    from Cons.IH[OF k(1)] False k(2) show ?thesis
      by (auto simp: less_Suc_eq_0_disj)
  qed
qed


lemma findIndex_update:
  assumes "findIndex P xs = Some i" "P y"
  shows "findIndex P (xs[i := y]) = Some i"
  using assms
proof (induction xs arbitrary: i)
  case Nil
  then show ?case by simp
next
  case (Cons x xs)
  then show ?case by (cases i) (auto split: if_splits)
qed

section \<open>At most one record per participant\<close>











text \<open>
  The handler on strings is the handler on JSON restricted to bodies of strings.
\<close>

lemma findIndex_map: "findIndex P (map f xs) = findIndex (\<lambda>x. P (f x)) xs"
  by (induction xs) simp_all

lemma mark_json_on_strings:
  "mark_json toStr (JStr code) (JStr sid) (json_of_name sname) now (map json_of_session ss) =
     (map json_of_session (fst (mark code sid sname now ss)),
      json_of_reply (fst (snd (mark code sid sname now ss))),
      map json_of_event (snd (snd (mark code sid sname now ss))))"
proof (cases "findIndex (\<lambda>s. sessionCode s = code \<and> isActive s) ss")
  case None
  then have "findIndex (\<lambda>s. strict_eq (JStr (sessionCode s)) (JStr code) \<and> isActive s)
               (map json_of_session ss) = None"
    by (simp add: findIndex_map json_of_session_def)
  with None show ?thesis by (simp add: mark_json_def mark_def)
next
  case (Some i)
  then have f: "findIndex (\<lambda>s. strict_eq (JStr (sessionCode s)) (JStr code) \<and> isActive s)
               (map json_of_session ss) = Some i"
    by (simp add: findIndex_map json_of_session_def)
  from findIndex_Some[OF Some] have i: "i < length ss" by simp
  have ex: "list_ex (\<lambda>att. strict_eq (studentId att) (JStr sid))
              (attendees (map json_of_session ss ! i))
            \<longleftrightarrow> list_ex (\<lambda>att. studentId att = sid) (attendees (ss ! i))"
    using i by (simp add: json_of_session_def json_of_record_def list_ex_iff)
  show ?thesis
  proof (cases "list_ex (\<lambda>att. studentId att = sid) (attendees (ss ! i))")
    case True
    with Some f ex show ?thesis by (simp add: mark_json_def mark_def Let_def)
  next
    case False
    have name: "(if truthy (json_of_name sname) then Inr (json_of_name sname)
                 else case template_text toStr (JStr sid) of
                        Inl m \<Rightarrow> Inl m
                      | Inr t \<Rightarrow> Inr (JStr (''Student '' @ t)))
               = Inr (JStr (js_or sname (''Student '' @ sid)))"
      by (simp add: json_of_name_def template_text_def js_or_def split: option.splits)
    from Some f ex False i show ?thesis
      by (simp add: mark_json_def mark_def Let_def name map_update
          json_of_session_def json_of_record_def json_of_event_def)
  qed
qed




section \<open>What a mark that appends does\<close>

lemma mark_appends:
  assumes "findIndex (\<lambda>s. sessionCode s = code \<and> isActive s) ss = Some i"
    and "sid \<notin> studentId ` set (attendees (ss ! i))"
  shows "mark code sid sname now ss =
     (ss[i := (ss ! i)\<lparr> attendees := attendees (ss ! i) @
          [\<lparr> studentId = sid, studentName = js_or sname (''Student '' @ sid),
             timestamp = now, method_att = ''qr'' \<rparr>] \<rparr>],
      MarkReply True ''Attendance marked successfully'' (Some (js_or sname (''Student '' @ sid))),
      [\<lparr> ev_sessionCode = code, ev_studentId = sid,
         ev_studentName = js_or sname (''Student '' @ sid),
         totalAttendees = Suc (length (attendees (ss ! i))),
         ev_timestamp = now \<rparr>])"
  using assms by (auto simp: mark_def Let_def list_ex_iff)

lemma mark_already:
  assumes "findIndex (\<lambda>s. sessionCode s = code \<and> isActive s) ss = Some i"
    and "sid \<in> studentId ` set (attendees (ss ! i))"
  shows "mark code sid sname now ss = (ss, MarkReply True ''Attendance already marked'' None, [])"
  using assms by (auto simp: mark_def Let_def list_ex_iff)

lemma mark_not_found:
  assumes "findIndex (\<lambda>s. sessionCode s = code \<and> isActive s) ss = None"
  shows "mark code sid sname now ss = (ss, Status 404 ''Session not found or expired'', [])"
  using assms by (simp add: mark_def)

lemma handle_length: "length ss \<le> length (fst (handle q r ss))"
proof (cases r)
  case (Start u cn d rnd now)
  then show ?thesis by (simp add: start_def Let_def)
next
  case (Mark code sid sname now)
  then show ?thesis by (simp add: mark_def Let_def split: option.splits)
next
  case (End u k now)
  then show ?thesis by (simp add: end_session_def Let_def split: option.splits)
qed

lemma nth_update_attendees:
  assumes "j < length ss"
  shows "\<exists>new. attendees (ss[i := (ss ! i)\<lparr> attendees := attendees (ss ! i) @ ys \<rparr>] ! j)
           = attendees (ss ! j) @ new"
  using assms by (cases "i = j") simp_all

lemma nth_update_ended:
  assumes "j < length ss"
  shows "attendees (ss[i := (ss ! i)\<lparr> isActive := False, endTime := Some now \<rparr>] ! j)
           = attendees (ss ! j)"
  using assms by (cases "i = j") simp_all

lemma handle_append_only:
  assumes "j < length ss"
  shows "\<exists>new. attendees (fst (handle q r ss) ! j) = attendees (ss ! j) @ new"
proof (cases r)
  case (Start u cn d rnd now)
  with assms show ?thesis by (simp add: start_def Let_def nth_append)
next
  case (Mark code sid sname now)
  with assms show ?thesis
    by (simp add: mark_def Let_def nth_update_attendees split: option.splits)
next
  case (End u k now)
  with assms show ?thesis
    by (simp add: end_session_def Let_def nth_update_ended split: option.splits)
qed

lemma run_append_only:
  "j < length ss \<Longrightarrow>
     j < length (run q rs ss) \<and> (\<exists>new. attendees (run q rs ss ! j) = attendees (ss ! j) @ new)"
proof (induction rs arbitrary: ss)
  case Nil
  then show ?case by simp
next
  case (Cons r rs)
  let ?ss = "fst (handle q r ss)"
  from Cons.prems handle_length[of ss q r] have j: "j < length ?ss" by simp
  from Cons.IH[OF j] obtain n2 where
    a: "j < length (run q rs ?ss)" "attendees (run q rs ?ss ! j) = attendees (?ss ! j) @ n2"
    by blast
  from handle_append_only[OF Cons.prems, of q r] obtain n1 where
    b: "attendees (?ss ! j) = attendees (ss ! j) @ n1" by blast
  from a b show ?case by simp
qed

text \<open>
  Claim C2, as amended. A mark that finds an active session not yet holding the
  participant id appends exactly one record at the end of that session's attendee
  sequence; the record carries the current time and the method tag \<open>qr\<close> (the code
  stores \<open>qr\<close>, not \<open>scan\<close>). No request removes or reorders records: after any list
  of requests the old attendee sequence of a session is a prefix of the new one.
\<close>

theorem mark_record_appended:
  "(findIndex (\<lambda>s. sessionCode s = code \<and> isActive s) ss = Some i \<and>
      sid \<notin> studentId ` set (attendees (ss ! i)) \<longrightarrow>
      attendees (fst (mark code sid sname now ss) ! i) =
        attendees (ss ! i) @ [last (attendees (fst (mark code sid sname now ss) ! i))]
      \<and> method_att (last (attendees (fst (mark code sid sname now ss) ! i))) = ''qr''
      \<and> timestamp (last (attendees (fst (mark code sid sname now ss) ! i))) = now
      \<and> studentId (last (attendees (fst (mark code sid sname now ss) ! i))) = sid)
   \<and> (j < length ss \<longrightarrow>
        j < length (run q rs ss) \<and>
        take (length (attendees (ss ! j))) (attendees (run q rs ss ! j)) = attendees (ss ! j))"
proof (intro conjI impI)
  assume a: "findIndex (\<lambda>s. sessionCode s = code \<and> isActive s) ss = Some i \<and>
      sid \<notin> studentId ` set (attendees (ss ! i))"
  then have i: "i < length ss" using findIndex_Some by blast
  from a have m: "mark code sid sname now ss =
     (ss[i := (ss ! i)\<lparr> attendees := attendees (ss ! i) @
          [\<lparr> studentId = sid, studentName = js_or sname (''Student '' @ sid),
             timestamp = now, method_att = ''qr'' \<rparr>] \<rparr>],
      MarkReply True ''Attendance marked successfully'' (Some (js_or sname (''Student '' @ sid))),
      [\<lparr> ev_sessionCode = code, ev_studentId = sid,
         ev_studentName = js_or sname (''Student '' @ sid),
         totalAttendees = Suc (length (attendees (ss ! i))),
         ev_timestamp = now \<rparr>])"
    by (simp add: mark_appends)
  show "attendees (fst (mark code sid sname now ss) ! i) =
        attendees (ss ! i) @ [last (attendees (fst (mark code sid sname now ss) ! i))]"
    unfolding m using i by simp
  show "method_att (last (attendees (fst (mark code sid sname now ss) ! i))) = ''qr''"
    unfolding m using i by simp
  show "timestamp (last (attendees (fst (mark code sid sname now ss) ! i))) = now"
    unfolding m using i by simp
  show "studentId (last (attendees (fst (mark code sid sname now ss) ! i))) = sid"
    unfolding m using i by simp
next
  assume j: "j < length ss"
  from run_append_only[OF j, of q rs] show "j < length (run q rs ss)" by simp
  from run_append_only[OF j, of q rs] obtain new where
    "attendees (run q rs ss ! j) = attendees (ss ! j) @ new" by blast
  then show "take (length (attendees (ss ! j))) (attendees (run q rs ss ! j)) = attendees (ss ! j)"
    by simp
qed

theorem mark_record_appended_witness:
  "findIndex (\<lambda>s. sessionCode s = ''ATT-1000-4fzyo82m'' \<and> isActive s) demo_registry = Some 0
   \<and> ''CS002'' \<notin> studentId ` set (attendees (demo_registry ! 0))
   \<and> attendees (fst (mark ''ATT-1000-4fzyo82m'' ''CS002'' (Some ''Bob Smith'') 2500 demo_registry) ! 0)
       = [\<lparr> studentId = ''CS002'', studentName = ''Bob Smith'', timestamp = 2500,
            method_att = ''qr'' \<rparr>]
   \<and> method_att (last (attendees
         (fst (mark ''ATT-1000-4fzyo82m'' ''CS002'' (Some ''Bob Smith'') 2500 demo_registry) ! 0)))
       = ''qr''
   \<and> (0::nat) < length demo_registry
   \<and> take (length (attendees (demo_registry ! 0)))
        (attendees (run demo_codec [Mark ''ATT-1000-4fzyo82m'' ''CS002'' None 2600,
                                    End demo_faculty (Some 1) 2700] demo_registry ! 0))
       = attendees (demo_registry ! 0)"
  using mark_record_appended
    [of "''ATT-1000-4fzyo82m''" demo_registry 0 "''CS002''" "Some ''Bob Smith''" 2500 0 demo_codec
        "[Mark ''ATT-1000-4fzyo82m'' ''CS002'' None 2600, End demo_faculty (Some 1) 2700]"]
  by (simp add: demo_registry_def demo_faculty_def demo_codec_def start_def mark_def
      generateSessionCode_def digit_char_def js_or_def Let_def)

text \<open>
  The claim as stated, with the tag \<open>scan\<close>, fails at the first mark of the demo
  registry: the mark succeeds and the stored tag differs from \<open>scan\<close>.
\<close>

theorem mark_method_not_scan:
  "fst (snd (mark ''ATT-1000-4fzyo82m'' ''CS002'' (Some ''Bob Smith'') 2500 demo_registry))
     = MarkReply True ''Attendance marked successfully'' (Some ''Bob Smith'')
   \<and> method_att (last (attendees
        (fst (mark ''ATT-1000-4fzyo82m'' ''CS002'' (Some ''Bob Smith'') 2500 demo_registry) ! 0)))
     \<noteq> ''scan''"
  by (simp add: demo_registry_def demo_faculty_def demo_codec_def start_def mark_def
      generateSessionCode_def digit_char_def js_or_def Let_def)

lemma start_no_event: "snd (snd (start q u cn d rnd now ss)) = []"
  by (simp add: start_def Let_def)

lemma end_no_event: "snd (snd (end_session u k now ss)) = []"
  by (simp add: end_session_def Let_def split: option.splits)

text \<open>
  Claim C8. The start and end handlers emit nothing, and neither does a mark that finds
  no active session with the code or finds the participant already recorded. A mark that
  appends emits exactly one event: it carries the session's code, the participant id,
  the name stored in the new record (the given name, or the placeholder), the length
  of the attendee sequence after the append (one more than before) and the new
  record's timestamp.
\<close>

theorem broadcast_only_on_append:
  "snd (snd (start q u cn d rnd now ss)) = []
   \<and> snd (snd (end_session u k now ss)) = []
   \<and> (findIndex (\<lambda>s. sessionCode s = code \<and> isActive s) ss = None \<longrightarrow>
        snd (snd (mark code sid sname now ss)) = [])
   \<and> (findIndex (\<lambda>s. sessionCode s = code \<and> isActive s) ss = Some i \<and>
        sid \<in> studentId ` set (attendees (ss ! i)) \<longrightarrow>
        snd (snd (mark code sid sname now ss)) = [])
   \<and> (findIndex (\<lambda>s. sessionCode s = code \<and> isActive s) ss = Some i \<and>
        sid \<notin> studentId ` set (attendees (ss ! i)) \<longrightarrow>
        snd (snd (mark code sid sname now ss)) =
          [\<lparr> ev_sessionCode = sessionCode (ss ! i),
             ev_studentId = sid,
             ev_studentName = studentName (last (attendees (fst (mark code sid sname now ss) ! i))),
             totalAttendees = length (attendees (fst (mark code sid sname now ss) ! i)),
             ev_timestamp = timestamp (last (attendees (fst (mark code sid sname now ss) ! i))) \<rparr>]
        \<and> length (attendees (fst (mark code sid sname now ss) ! i))
            = Suc (length (attendees (ss ! i)))
        \<and> studentName (last (attendees (fst (mark code sid sname now ss) ! i)))
            = js_or sname (''Student '' @ sid)
        \<and> timestamp (last (attendees (fst (mark code sid sname now ss) ! i))) = now)"
proof (intro conjI impI)
  show "snd (snd (start q u cn d rnd now ss)) = []" by (rule start_no_event)
  show "snd (snd (end_session u k now ss)) = []" by (rule end_no_event)
next
  assume "findIndex (\<lambda>s. sessionCode s = code \<and> isActive s) ss = None"
  then show "snd (snd (mark code sid sname now ss)) = []"
    by (simp add: mark_not_found)
next
  assume "findIndex (\<lambda>s. sessionCode s = code \<and> isActive s) ss = Some i \<and>
        sid \<in> studentId ` set (attendees (ss ! i))"
  then show "snd (snd (mark code sid sname now ss)) = []"
    by (simp add: mark_already)
next
  assume a: "findIndex (\<lambda>s. sessionCode s = code \<and> isActive s) ss = Some i \<and>
        sid \<notin> studentId ` set (attendees (ss ! i))"
  then have i: "i < length ss" and c: "sessionCode (ss ! i) = code"
    using findIndex_Some[of "\<lambda>s. sessionCode s = code \<and> isActive s" ss i] by simp_all
  note m = mark_appends[of code ss i sid sname now]
  from a i c
  show "snd (snd (mark code sid sname now ss)) =
          [\<lparr> ev_sessionCode = sessionCode (ss ! i),
             ev_studentId = sid,
             ev_studentName = studentName (last (attendees (fst (mark code sid sname now ss) ! i))),
             totalAttendees = length (attendees (fst (mark code sid sname now ss) ! i)),
             ev_timestamp = timestamp (last (attendees (fst (mark code sid sname now ss) ! i))) \<rparr>]"
    by (simp add: m)
  from a i show "length (attendees (fst (mark code sid sname now ss) ! i))
            = Suc (length (attendees (ss ! i)))"
    by (simp add: m)
  from a i show "studentName (last (attendees (fst (mark code sid sname now ss) ! i)))
            = js_or sname (''Student '' @ sid)"
    by (simp add: m)
  from a i show "timestamp (last (attendees (fst (mark code sid sname now ss) ! i))) = now"
    by (simp add: m)
qed

theorem broadcast_only_on_append_witness:
  "findIndex (\<lambda>s. sessionCode s = ''ATT-1000-4fzyo82m'' \<and> isActive s) demo_registry = Some 0
   \<and> ''CS002'' \<notin> studentId ` set (attendees (demo_registry ! 0))
   \<and> snd (snd (mark ''ATT-1000-4fzyo82m'' ''CS002'' None 2500 demo_registry))
       = [\<lparr> ev_sessionCode = ''ATT-1000-4fzyo82m'', ev_studentId = ''CS002'',
            ev_studentName = ''Student CS002'', totalAttendees = 1, ev_timestamp = 2500 \<rparr>]
   \<and> length (attendees (fst (mark ''ATT-1000-4fzyo82m'' ''CS002'' None 2500 demo_registry) ! 0)) = 1
   \<and> findIndex (\<lambda>s. sessionCode s = ''ATT-9-zzzzzzzz'' \<and> isActive s) demo_registry = None
   \<and> snd (snd (mark ''ATT-9-zzzzzzzz'' ''CS002'' None 2500 demo_registry)) = []"
  using broadcast_only_on_append
    [where code = "''ATT-1000-4fzyo82m''" and ss = demo_registry and sid = "''CS002''"
       and sname = None and now = 2500 and i = 0]
    broadcast_only_on_append
    [where code = "''ATT-9-zzzzzzzz''" and ss = demo_registry and sid = "''CS002''"
       and sname = None and now = 2500 and i = 0]
  by (simp add: demo_registry_def demo_faculty_def demo_codec_def start_def
      generateSessionCode_def digit_char_def js_or_def Let_def)

text \<open>
  Claim C9. A mark that appends answers \<open>success\<close> with the resolved display name, and
  the stored record carries the same name: the name of the request when it is a
  non-empty string, and \<open>Student \<close> followed by the participant id when the request
  carries no name (an absent name, or the empty string, which \<open>||\<close> treats alike).
\<close>

theorem mark_resolved_name:
  "findIndex (\<lambda>s. sessionCode s = code \<and> isActive s) ss = Some i \<and>
     sid \<notin> studentId ` set (attendees (ss ! i)) \<longrightarrow>
     fst (snd (mark code sid sname now ss)) =
       MarkReply True ''Attendance marked successfully''
         (Some (case sname of
                  None \<Rightarrow> ''Student '' @ sid
                | Some n \<Rightarrow> if n = [] then ''Student '' @ sid else n))
     \<and> studentName (last (attendees (fst (mark code sid sname now ss) ! i))) =
         (case sname of
            None \<Rightarrow> ''Student '' @ sid
          | Some n \<Rightarrow> if n = [] then ''Student '' @ sid else n)"
proof (intro impI)
  assume a: "findIndex (\<lambda>s. sessionCode s = code \<and> isActive s) ss = Some i \<and>
     sid \<notin> studentId ` set (attendees (ss ! i))"
  then have i: "i < length ss" using findIndex_Some by blast
  from a have m: "mark code sid sname now ss =
     (ss[i := (ss ! i)\<lparr> attendees := attendees (ss ! i) @
          [\<lparr> studentId = sid, studentName = js_or sname (''Student '' @ sid),
             timestamp = now, method_att = ''qr'' \<rparr>] \<rparr>],
      MarkReply True ''Attendance marked successfully'' (Some (js_or sname (''Student '' @ sid))),
      [\<lparr> ev_sessionCode = code, ev_studentId = sid,
         ev_studentName = js_or sname (''Student '' @ sid),
         totalAttendees = Suc (length (attendees (ss ! i))),
         ev_timestamp = now \<rparr>])"
    by (simp add: mark_appends)
  show "fst (snd (mark code sid sname now ss)) =
       MarkReply True ''Attendance marked successfully''
         (Some (case sname of
                  None \<Rightarrow> ''Student '' @ sid
                | Some n \<Rightarrow> if n = [] then ''Student '' @ sid else n))
     \<and> studentName (last (attendees (fst (mark code sid sname now ss) ! i))) =
         (case sname of
            None \<Rightarrow> ''Student '' @ sid
          | Some n \<Rightarrow> if n = [] then ''Student '' @ sid else n)"
    unfolding m using i by (simp add: js_or_def split: option.splits)
qed

theorem mark_resolved_name_witness:
  "findIndex (\<lambda>s. sessionCode s = ''ATT-1000-4fzyo82m'' \<and> isActive s) demo_registry = Some 0
   \<and> ''CS002'' \<notin> studentId ` set (attendees (demo_registry ! 0))
   \<and> fst (snd (mark ''ATT-1000-4fzyo82m'' ''CS002'' (Some ''Bob Smith'') 2500 demo_registry))
       = MarkReply True ''Attendance marked successfully'' (Some ''Bob Smith'')
   \<and> studentName (last (attendees
        (fst (mark ''ATT-1000-4fzyo82m'' ''CS002'' (Some ''Bob Smith'') 2500 demo_registry) ! 0)))
       = ''Bob Smith''
   \<and> fst (snd (mark ''ATT-1000-4fzyo82m'' ''CS002'' None 2500 demo_registry))
       = MarkReply True ''Attendance marked successfully'' (Some ''Student CS002'')
   \<and> fst (snd (mark ''ATT-1000-4fzyo82m'' ''CS002'' (Some []) 2500 demo_registry))
       = MarkReply True ''Attendance marked successfully'' (Some ''Student CS002'')"
  using mark_resolved_name
    [of "''ATT-1000-4fzyo82m''" demo_registry 0 "''CS002''" "Some ''Bob Smith''" 2500]
    mark_resolved_name
    [of "''ATT-1000-4fzyo82m''" demo_registry 0 "''CS002''" None 2500]
    mark_resolved_name
    [of "''ATT-1000-4fzyo82m''" demo_registry 0 "''CS002''" "Some []" 2500]
  by (simp add: demo_registry_def demo_faculty_def demo_codec_def start_def
      generateSessionCode_def digit_char_def js_or_def Let_def)

section \<open>Start and end: refusals and the effect of a successful end\<close>

lemma end_not_found:
  assumes "findIndex (\<lambda>s. Some (id_s s) = k) ss = None"
  shows "end_session u k now ss = (ss, Status 404 ''Session not found'', [])"
  using assms by (simp add: end_session_def)

lemma end_forbidden:
  assumes "findIndex (\<lambda>s. Some (id_s s) = k) ss = Some i" "professorId (ss ! i) \<noteq> id_u u"
  shows "end_session u k now ss = (ss, Status 403 ''Access denied'', [])"
  using assms by (simp add: end_session_def Let_def)

lemma end_by_owner:
  assumes "findIndex (\<lambda>s. Some (id_s s) = k) ss = Some i" "professorId (ss ! i) = id_u u"
  shows "end_session u k now ss =
     (ss[i := (ss ! i)\<lparr> isActive := False, endTime := Some now \<rparr>],
      EndReply True ''Session ended successfully'', [])"
  using assms by (simp add: end_session_def Let_def)

text \<open>
  Claim C5. A requester whose role is not \<open>faculty\<close> gets 403 from start and the
  registry stays as it was. The end handler answers 404 when no session has the given
  id, and 403, with the registry unchanged, when the session it finds belongs to another
  identity than the requester's.
\<close>

theorem start_end_refusals:
  "(role u \<noteq> ''faculty'' \<longrightarrow>
      start q u cn d rnd now ss = (ss, Status 403 ''Only faculty can start sessions'', []))
   \<and> ((\<forall>s \<in> set ss. Some (id_s s) \<noteq> k) \<longrightarrow>
      end_session u k now ss = (ss, Status 404 ''Session not found'', []))
   \<and> (findIndex (\<lambda>s. Some (id_s s) = k) ss = Some i \<and> professorId (ss ! i) \<noteq> id_u u \<longrightarrow>
      end_session u k now ss = (ss, Status 403 ''Access denied'', []))"
proof (intro conjI impI)
  assume "role u \<noteq> ''faculty''"
  then show "start q u cn d rnd now ss = (ss, Status 403 ''Only faculty can start sessions'', [])"
    by (simp add: start_def)
next
  assume "\<forall>s \<in> set ss. Some (id_s s) \<noteq> k"
  then have "findIndex (\<lambda>s. Some (id_s s) = k) ss = None"
    by (simp add: findIndex_None)
  then show "end_session u k now ss = (ss, Status 404 ''Session not found'', [])"
    by (rule end_not_found)
next
  assume "findIndex (\<lambda>s. Some (id_s s) = k) ss = Some i \<and> professorId (ss ! i) \<noteq> id_u u"
  then show "end_session u k now ss = (ss, Status 403 ''Access denied'', [])"
    by (simp add: end_forbidden)
qed

theorem start_end_refusals_witness:
  "role demo_student \<noteq> ''faculty''
   \<and> start demo_codec demo_student (Some ''Physics'') 1500 ''0.k2j9x0a1bcd'' 1501 demo_registry
       = (demo_registry, Status 403 ''Only faculty can start sessions'', [])
   \<and> list_all (\<lambda>s. Some (id_s s) \<noteq> Some 2) demo_registry
   \<and> end_session demo_faculty (Some 2) 1600 demo_registry
       = (demo_registry, Status 404 ''Session not found'', [])
   \<and> findIndex (\<lambda>s. Some (id_s s) = Some 1) demo_registry = Some 0
   \<and> professorId (demo_registry ! 0) \<noteq> id_u other_faculty
   \<and> end_session other_faculty (Some 1) 1600 demo_registry
       = (demo_registry, Status 403 ''Access denied'', [])"
  using start_end_refusals
    [where u = demo_student and q = demo_codec and cn = "Some ''Physics''" and d = 1500
       and rnd = "''0.k2j9x0a1bcd''" and now = 1501 and ss = demo_registry]
    start_end_refusals
    [where u = demo_faculty and k = "Some 2" and now = 1600 and ss = demo_registry]
    start_end_refusals
    [where u = other_faculty and k = "Some 1" and now = 1600 and ss = demo_registry and i = 0]
  by (simp add: demo_registry_def demo_faculty_def demo_student_def other_faculty_def
      start_def Let_def)

text \<open>
  Claim C6. When the session found by id belongs to the requester, end answers success;
  that session gets \<open>isActive = false\<close> and \<open>endTime\<close> set to the current time, its other
  fields and every other session are as before. The \<open>isActive\<close> flag is not read: ending
  the session again at a later time succeeds too and overwrites \<open>endTime\<close>.
\<close>

theorem end_by_owner_effect:
  "findIndex (\<lambda>s. Some (id_s s) = k) ss = Some i \<and> professorId (ss ! i) = id_u u \<longrightarrow>
     end_session u k now ss =
       (ss[i := (ss ! i)\<lparr> isActive := False, endTime := Some now \<rparr>],
        EndReply True ''Session ended successfully'', [])
     \<and> length (fst (end_session u k now ss)) = length ss
     \<and> isActive (fst (end_session u k now ss) ! i) = False
     \<and> endTime (fst (end_session u k now ss) ! i) = Some now
     \<and> attendees (fst (end_session u k now ss) ! i) = attendees (ss ! i)
     \<and> sessionCode (fst (end_session u k now ss) ! i) = sessionCode (ss ! i)
     \<and> id_s (fst (end_session u k now ss) ! i) = id_s (ss ! i)
     \<and> professorId (fst (end_session u k now ss) ! i) = professorId (ss ! i)
     \<and> professorName (fst (end_session u k now ss) ! i) = professorName (ss ! i)
     \<and> className (fst (end_session u k now ss) ! i) = className (ss ! i)
     \<and> qrCode (fst (end_session u k now ss) ! i) = qrCode (ss ! i)
     \<and> startTime (fst (end_session u k now ss) ! i) = startTime (ss ! i)
     \<and> (\<forall>j < length ss. j \<noteq> i \<longrightarrow> fst (end_session u k now ss) ! j = ss ! j)
     \<and> end_session u k now' (fst (end_session u k now ss)) =
         (ss[i := (ss ! i)\<lparr> isActive := False, endTime := Some now' \<rparr>],
          EndReply True ''Session ended successfully'', [])"
proof (intro impI)
  assume a: "findIndex (\<lambda>s. Some (id_s s) = k) ss = Some i \<and> professorId (ss ! i) = id_u u"
  let ?s = "(ss ! i)\<lparr> isActive := False, endTime := Some now \<rparr>"
  from a have f: "findIndex (\<lambda>s. Some (id_s s) = k) ss = Some i"
    and o: "professorId (ss ! i) = id_u u" by simp_all
  from findIndex_Some[OF f] have i: "i < length ss" and idk: "Some (id_s (ss ! i)) = k"
    by simp_all
  have e: "end_session u k now ss = (ss[i := ?s], EndReply True ''Session ended successfully'', [])"
    by (rule end_by_owner[OF f o])
  have f2: "findIndex (\<lambda>s. Some (id_s s) = k) (ss[i := ?s]) = Some i"
    using idk by (intro findIndex_update[OF f]) simp
  have o2: "professorId (ss[i := ?s] ! i) = id_u u"
    using i o by simp
  have e2: "end_session u k now' (ss[i := ?s]) =
      (ss[i := ?s, i := (ss[i := ?s] ! i)\<lparr> isActive := False, endTime := Some now' \<rparr>],
       EndReply True ''Session ended successfully'', [])"
    by (rule end_by_owner[OF f2 o2])
  have again: "end_session u k now' (fst (end_session u k now ss)) =
         (ss[i := (ss ! i)\<lparr> isActive := False, endTime := Some now' \<rparr>],
          EndReply True ''Session ended successfully'', [])"
    unfolding e using i by (simp add: e2)
  from i again show "end_session u k now ss =
       (ss[i := (ss ! i)\<lparr> isActive := False, endTime := Some now \<rparr>],
        EndReply True ''Session ended successfully'', [])
     \<and> length (fst (end_session u k now ss)) = length ss
     \<and> isActive (fst (end_session u k now ss) ! i) = False
     \<and> endTime (fst (end_session u k now ss) ! i) = Some now
     \<and> attendees (fst (end_session u k now ss) ! i) = attendees (ss ! i)
     \<and> sessionCode (fst (end_session u k now ss) ! i) = sessionCode (ss ! i)
     \<and> id_s (fst (end_session u k now ss) ! i) = id_s (ss ! i)
     \<and> professorId (fst (end_session u k now ss) ! i) = professorId (ss ! i)
     \<and> professorName (fst (end_session u k now ss) ! i) = professorName (ss ! i)
     \<and> className (fst (end_session u k now ss) ! i) = className (ss ! i)
     \<and> qrCode (fst (end_session u k now ss) ! i) = qrCode (ss ! i)
     \<and> startTime (fst (end_session u k now ss) ! i) = startTime (ss ! i)
     \<and> (\<forall>j < length ss. j \<noteq> i \<longrightarrow> fst (end_session u k now ss) ! j = ss ! j)
     \<and> end_session u k now' (fst (end_session u k now ss)) =
         (ss[i := (ss ! i)\<lparr> isActive := False, endTime := Some now' \<rparr>],
          EndReply True ''Session ended successfully'', [])"
    by (simp add: e)
qed

theorem end_by_owner_effect_witness:
  "findIndex (\<lambda>s. Some (id_s s) = Some 1) demo_registry = Some 0
   \<and> professorId (demo_registry ! 0) = id_u demo_faculty
   \<and> fst (snd (end_session demo_faculty (Some 1) 1600 demo_registry))
       = EndReply True ''Session ended successfully''
   \<and> isActive (fst (end_session demo_faculty (Some 1) 1600 demo_registry) ! 0) = False
   \<and> endTime (fst (end_session demo_faculty (Some 1) 1600 demo_registry) ! 0) = Some 1600
   \<and> sessionCode (fst (end_session demo_faculty (Some 1) 1600 demo_registry) ! 0)
       = ''ATT-1000-4fzyo82m''
   \<and> fst (snd (end_session demo_faculty (Some 1) 1700
        (fst (end_session demo_faculty (Some 1) 1600 demo_registry))))
       = EndReply True ''Session ended successfully''
   \<and> endTime (fst (end_session demo_faculty (Some 1) 1700
        (fst (end_session demo_faculty (Some 1) 1600 demo_registry))) ! 0) = Some 1700"
  using end_by_owner_effect [of "Some 1" demo_registry 0 demo_faculty 1600 1700]
  by (auto simp: demo_registry_def demo_faculty_def demo_codec_def start_def
      generateSessionCode_def digit_char_def Let_def)

section \<open>Session codes\<close>

lemma digit_char_code: "d < 10 \<Longrightarrow> of_char (digit_char d) = (48 + d :: nat)"
proof -
  assume "d < 10"
  then have "d \<in> {0, 1, 2, 3, 4, 5, 6, 7, 8, 9}" by auto
  then show ?thesis by (auto simp: digit_char_def)
qed

lemma digit_char_inj:
  assumes "d < 10" "e < 10" "digit_char d = digit_char e"
  shows "d = e"
proof -
  from assms(3) have "(of_char (digit_char d) :: nat) = of_char (digit_char e)"
    by (rule arg_cong)
  then have "(48 + d :: nat) = 48 + e"
    by (simp only: digit_char_code[OF assms(1)] digit_char_code[OF assms(2)])
  then show ?thesis by simp
qed

lemma digit_char_not_dash: "d < 10 \<Longrightarrow> digit_char d \<noteq> CHR ''-''"
proof
  assume d: "d < 10" and "digit_char d = CHR ''-''"
  then have "(of_char (digit_char d) :: nat) = of_char (CHR ''-'')"
    by (simp only:)
  then have "(48 + d :: nat) = of_char (CHR ''-'')"
    by (simp only: digit_char_code[OF d])
  then show False by simp
qed

declare string_of_nat.simps [simp del]

lemma string_of_nat_not_empty: "string_of_nat n \<noteq> []"
  by (subst string_of_nat.simps) simp

lemma string_of_nat_no_dash: "CHR ''-'' \<notin> set (string_of_nat n)"
proof (induction n rule: string_of_nat.induct)
  case (1 n)
  show ?case
  proof (cases "n < 10")
    case True
    then show ?thesis
      using digit_char_not_dash[of n] by (subst string_of_nat.simps) auto
  next
    case False
    with "1" have "CHR ''-'' \<notin> set (string_of_nat (n div 10))" by simp
    moreover have "digit_char (n mod 10) \<noteq> CHR ''-''"
      by (rule digit_char_not_dash) simp
    ultimately show ?thesis
      using False by (subst string_of_nat.simps) auto
  qed
qed

lemma string_of_nat_inj: "string_of_nat m = string_of_nat n \<Longrightarrow> m = n"
proof (induction m arbitrary: n rule: string_of_nat.induct)
  case (1 m)
  note eq = "1.prems"
  show ?case
  proof (cases "m < 10")
    case m: True
    show ?thesis
    proof (cases "n < 10")
      case True
      from eq m True have "digit_char m = digit_char n"
        by (simp add: string_of_nat.simps[of m] string_of_nat.simps[of n])
      from digit_char_inj[OF m True this] show ?thesis .
    next
      case False
      from eq m False have "string_of_nat (n div 10) = []"
        by (simp add: string_of_nat.simps[of m] string_of_nat.simps[of n] Cons_eq_append_conv)
      then show ?thesis by (simp add: string_of_nat_not_empty)
    qed
  next
    case m: False
    show ?thesis
    proof (cases "n < 10")
      case True
      from eq m True have "string_of_nat (m div 10) = []"
        by (simp add: string_of_nat.simps[of m] string_of_nat.simps[of n] append_eq_Cons_conv)
      then show ?thesis by (simp add: string_of_nat_not_empty)
    next
      case False
      from eq m False have a: "string_of_nat (m div 10) = string_of_nat (n div 10)"
        and b: "digit_char (m mod 10) = digit_char (n mod 10)"
        by (simp_all add: string_of_nat.simps[of m] string_of_nat.simps[of n])
      from "1.IH"[OF m a] have "m div 10 = n div 10" .
      moreover from b have "m mod 10 = n mod 10"
        by (intro digit_char_inj) simp_all
      ultimately show ?thesis
        by (metis div_mult_mod_eq)
    qed
  qed
qed

lemma dash_split:
  assumes "CHR ''-'' \<notin> set a" "CHR ''-'' \<notin> set b" "a @ CHR ''-'' # x = b @ CHR ''-'' # y"
  shows "a = b \<and> x = y"
  using assms
proof (induction a arbitrary: b)
  case Nil
  then show ?case by (cases b) auto
next
  case (Cons c a)
  then show ?case by (cases b) auto
qed

lemma generateSessionCode_inj:
  "generateSessionCode t1 r1 = generateSessionCode t2 r2 \<longleftrightarrow>
     t1 = t2 \<and> take 8 (drop 2 r1) = take 8 (drop 2 r2)"
proof
  assume "generateSessionCode t1 r1 = generateSessionCode t2 r2"
  then have "string_of_nat t1 @ CHR ''-'' # take 8 (drop 2 r1)
           = string_of_nat t2 @ CHR ''-'' # take 8 (drop 2 r2)"
    by (simp add: generateSessionCode_def)
  from dash_split[OF string_of_nat_no_dash string_of_nat_no_dash this]
  show "t1 = t2 \<and> take 8 (drop 2 r1) = take 8 (drop 2 r2)"
    by (auto dest: string_of_nat_inj)
next
  assume "t1 = t2 \<and> take 8 (drop 2 r1) = take 8 (drop 2 r2)"
  then show "generateSessionCode t1 r1 = generateSessionCode t2 r2"
    by (simp add: generateSessionCode_def)
qed

lemma map_update_same: "f y = f (xs ! i) \<Longrightarrow> map f (xs[i := y]) = map f xs"
  by (induction xs arbitrary: i) (auto split: nat.splits)

lemma handle_codes:
  "map sessionCode (fst (handle q r ss)) =
     map sessionCode ss @ map (\<lambda>(t, sfx). ''ATT-'' @ string_of_nat t @ ''-'' @ sfx) (code_seeds [r])"
proof (cases r)
  case (Start u cn d rnd now)
  then show ?thesis by (simp add: start_def Let_def generateSessionCode_def)
next
  case (Mark code sid sname now)
  then show ?thesis
    by (simp add: mark_def Let_def map_update_same split: option.splits)
next
  case (End u k now)
  then show ?thesis
    by (simp add: end_session_def Let_def map_update_same split: option.splits)
qed

lemma code_seeds_Cons: "code_seeds (r # rs) = code_seeds [r] @ code_seeds rs"
  by (cases r) simp_all

lemma run_codes:
  "map sessionCode (run q rs ss) =
     map sessionCode ss @ map (\<lambda>(t, sfx). ''ATT-'' @ string_of_nat t @ ''-'' @ sfx) (code_seeds rs)"
proof (induction rs arbitrary: ss)
  case Nil
  then show ?case by simp
next
  case (Cons r rs)
  show ?case
    by (simp add: Cons.IH handle_codes code_seeds_Cons[of r rs] del: code_seeds.simps)
qed

lemma code_of_seed_inj: "inj (\<lambda>(t, sfx). ''ATT-'' @ string_of_nat t @ ''-'' @ sfx)"
proof (rule injI)
  fix p p' :: "nat \<times> string"
  assume e: "(case p of (t, sfx) \<Rightarrow> ''ATT-'' @ string_of_nat t @ ''-'' @ sfx)
      = (case p' of (t, sfx) \<Rightarrow> ''ATT-'' @ string_of_nat t @ ''-'' @ sfx)"
  obtain t s where p: "p = (t, s)" by (cases p)
  obtain t' s' where p': "p' = (t', s')" by (cases p')
  from e p p' have "string_of_nat t @ CHR ''-'' # s = string_of_nat t' @ CHR ''-'' # s'"
    by simp
  from dash_split[OF string_of_nat_no_dash string_of_nat_no_dash this] p p'
  show "p = p'" by (auto dest: string_of_nat_inj)
qed

text \<open>
  Claim C4, as amended. Two generated codes are equal exactly when they were built from
  the same millisecond and the same random suffix. The generator consults no registry:
  the codes of the sessions created by a list of requests are pairwise distinct exactly
  when the (millisecond, suffix) pairs of its starts are.
\<close>

theorem session_codes_distinct_iff:
  "(generateSessionCode t1 r1 = generateSessionCode t2 r2 \<longleftrightarrow>
      t1 = t2 \<and> take 8 (drop 2 r1) = take 8 (drop 2 r2))
   \<and> (distinct (map sessionCode (run q rs [])) \<longleftrightarrow> distinct (code_seeds rs))"
proof
  show "generateSessionCode t1 r1 = generateSessionCode t2 r2 \<longleftrightarrow>
      t1 = t2 \<and> take 8 (drop 2 r1) = take 8 (drop 2 r2)"
    by (rule generateSessionCode_inj)
  have "inj_on (\<lambda>(t, sfx). ''ATT-'' @ string_of_nat t @ ''-'' @ sfx) (set (code_seeds rs))"
    using code_of_seed_inj by (rule inj_on_subset) simp
  then show "distinct (map sessionCode (run q rs [])) \<longleftrightarrow> distinct (code_seeds rs)"
    by (simp add: run_codes distinct_map)
qed

theorem session_codes_distinct_iff_witness:
  "generateSessionCode 1000 ''0.4fzyo82mvyr'' \<noteq> generateSessionCode 1001 ''0.4fzyo82mvyr''
   \<and> generateSessionCode 1000 ''0.4fzyo82mvyr'' \<noteq> generateSessionCode 1000 ''0.k2j9x0a1bcd''
   \<and> distinct (map sessionCode (run demo_codec
        [Start demo_faculty None 1000 ''0.4fzyo82mvyr'' 1001,
         Start other_faculty None 1000 ''0.k2j9x0a1bcd'' 1001] []))"
  using session_codes_distinct_iff [of 1000 "''0.4fzyo82mvyr''" 1001 "''0.4fzyo82mvyr''"]
    session_codes_distinct_iff [of 1000 "''0.4fzyo82mvyr''" 1000 "''0.k2j9x0a1bcd''" demo_codec
      "[Start demo_faculty None 1000 ''0.4fzyo82mvyr'' 1001,
         Start other_faculty None 1000 ''0.k2j9x0a1bcd'' 1001]"]
  by (simp add: demo_faculty_def other_faculty_def)

text \<open>
  The claim as stated fails: two starts that read the same millisecond and the same
  random string create two sessions, with ids 1 and 2 and two owners, that share one
  code.
\<close>

theorem session_code_collision:
  "length (run demo_codec colliding_starts []) = 2
   \<and> id_s (run demo_codec colliding_starts [] ! 0) = 1
   \<and> id_s (run demo_codec colliding_starts [] ! 1) = 2
   \<and> professorId (run demo_codec colliding_starts [] ! 0) = ''3''
   \<and> professorId (run demo_codec colliding_starts [] ! 1) = ''7''
   \<and> sessionCode (run demo_codec colliding_starts [] ! 0) = ''ATT-1000-4fzyo82m''
   \<and> sessionCode (run demo_codec colliding_starts [] ! 1) = ''ATT-1000-4fzyo82m''"
  by (simp add: colliding_starts_def demo_faculty_def other_faculty_def start_def Let_def
      generateSessionCode_def string_of_nat.simps digit_char_def)

section \<open>Marks against unknown and ended sessions\<close>

lemma mark_reply_cases:
  "fst (snd (mark code sid sname now ss)) = Status 404 ''Session not found or expired'' \<and>
     findIndex (\<lambda>s. sessionCode s = code \<and> isActive s) ss = None
   \<or> (\<exists>m n. fst (snd (mark code sid sname now ss)) = MarkReply True m n) \<and>
     findIndex (\<lambda>s. sessionCode s = code \<and> isActive s) ss \<noteq> None"
  by (cases "findIndex (\<lambda>s. sessionCode s = code \<and> isActive s) ss")
     (simp_all add: mark_def Let_def)

lemma ended_not_found:
  assumes f: "findIndex (\<lambda>s. Some (id_s s) = k) ss = Some i"
    and o: "professorId (ss ! i) = id_u u"
    and only: "\<forall>j < length ss. j \<noteq> i \<longrightarrow>
                 \<not> (sessionCode (ss ! j) = sessionCode (ss ! i) \<and> isActive (ss ! j))"
  shows "findIndex (\<lambda>s. sessionCode s = sessionCode (ss ! i) \<and> isActive s)
           (fst (end_session u k t ss)) = None"
proof -
  let ?ss = "ss[i := (ss ! i)\<lparr> isActive := False, endTime := Some t \<rparr>]"
  from findIndex_Some[OF f] have i: "i < length ss" by simp
  have "\<not> (sessionCode x = sessionCode (ss ! i) \<and> isActive x)" if "x \<in> set ?ss" for x
  proof -
    from that obtain j where j: "j < length ss" "x = ?ss ! j"
      by (auto simp: in_set_conv_nth)
    show ?thesis
    proof (cases "j = i")
      case True
      with j i show ?thesis by simp
    next
      case False
      with j only show ?thesis by simp
    qed
  qed
  then have "findIndex (\<lambda>s. sessionCode s = sessionCode (ss ! i) \<and> isActive s) ?ss = None"
    by (simp add: findIndex_None)
  then show ?thesis
    by (simp add: end_by_owner[OF f o])
qed

text \<open>
  Claim C3, as amended. A mark succeeds exactly when some session of the registry has
  the code and is active; otherwise it answers 404 with the one message
  \<open>Session not found or expired\<close>, changes nothing and emits nothing. After a successful
  end of a session, a mark against that session's code gets this 404 provided no other
  active session carries the same code, which is so whenever the codes of the registry
  are pairwise distinct; a code that no session carries gets the same 404.
\<close>

theorem mark_needs_active_session:
  "((\<exists>m n. fst (snd (mark code sid sname now ss)) = MarkReply True m n) \<longleftrightarrow>
      (\<exists>s \<in> set ss. sessionCode s = code \<and> isActive s))
   \<and> (\<not> (\<exists>s \<in> set ss. sessionCode s = code \<and> isActive s) \<longrightarrow>
        mark code sid sname now ss = (ss, Status 404 ''Session not found or expired'', []))
   \<and> (findIndex (\<lambda>s. Some (id_s s) = k) ss = Some i \<and> professorId (ss ! i) = id_u u \<and>
        (\<forall>j < length ss. j \<noteq> i \<longrightarrow>
           \<not> (sessionCode (ss ! j) = sessionCode (ss ! i) \<and> isActive (ss ! j))) \<longrightarrow>
        mark (sessionCode (ss ! i)) sid sname now (fst (end_session u k t ss)) =
          (fst (end_session u k t ss), Status 404 ''Session not found or expired'', []))
   \<and> (findIndex (\<lambda>s. Some (id_s s) = k) ss = Some i \<and> professorId (ss ! i) = id_u u \<and>
        distinct (map sessionCode ss) \<longrightarrow>
        mark (sessionCode (ss ! i)) sid sname now (fst (end_session u k t ss)) =
          (fst (end_session u k t ss), Status 404 ''Session not found or expired'', []))
   \<and> (code \<notin> sessionCode ` set ss \<longrightarrow>
        mark code sid sname now ss = (ss, Status 404 ''Session not found or expired'', []))"
proof (intro conjI impI)
  have n: "findIndex (\<lambda>s. sessionCode s = code \<and> isActive s) ss = None \<longleftrightarrow>
      \<not> (\<exists>s \<in> set ss. sessionCode s = code \<and> isActive s)"
    by (simp add: findIndex_None)
  from mark_reply_cases[of code sid sname now ss] n
  show "(\<exists>m n. fst (snd (mark code sid sname now ss)) = MarkReply True m n) \<longleftrightarrow>
      (\<exists>s \<in> set ss. sessionCode s = code \<and> isActive s)"
    by auto
next
  assume "\<not> (\<exists>s \<in> set ss. sessionCode s = code \<and> isActive s)"
  then have "findIndex (\<lambda>s. sessionCode s = code \<and> isActive s) ss = None"
    by (simp add: findIndex_None)
  then show "mark code sid sname now ss = (ss, Status 404 ''Session not found or expired'', [])"
    by (rule mark_not_found)
next
  assume a: "findIndex (\<lambda>s. Some (id_s s) = k) ss = Some i \<and> professorId (ss ! i) = id_u u \<and>
        (\<forall>j < length ss. j \<noteq> i \<longrightarrow>
           \<not> (sessionCode (ss ! j) = sessionCode (ss ! i) \<and> isActive (ss ! j)))"
  then have "findIndex (\<lambda>s. sessionCode s = sessionCode (ss ! i) \<and> isActive s)
           (fst (end_session u k t ss)) = None"
    by (intro ended_not_found) simp_all
  then show "mark (sessionCode (ss ! i)) sid sname now (fst (end_session u k t ss)) =
          (fst (end_session u k t ss), Status 404 ''Session not found or expired'', [])"
    by (rule mark_not_found)
next
  assume a: "findIndex (\<lambda>s. Some (id_s s) = k) ss = Some i \<and> professorId (ss ! i) = id_u u \<and>
        distinct (map sessionCode ss)"
  then have i: "i < length ss" using findIndex_Some by blast
  have "\<not> (sessionCode (ss ! j) = sessionCode (ss ! i) \<and> isActive (ss ! j))"
    if j: "j < length ss" "j \<noteq> i" for j
  proof -
    from a have "distinct (map sessionCode ss)" by simp
    from nth_eq_iff_index_eq[OF this, of j i] i j
    show ?thesis by simp
  qed
  with a have "findIndex (\<lambda>s. sessionCode s = sessionCode (ss ! i) \<and> isActive s)
           (fst (end_session u k t ss)) = None"
    by (intro ended_not_found) simp_all
  then show "mark (sessionCode (ss ! i)) sid sname now (fst (end_session u k t ss)) =
          (fst (end_session u k t ss), Status 404 ''Session not found or expired'', [])"
    by (rule mark_not_found)
next
  assume "code \<notin> sessionCode ` set ss"
  then have "findIndex (\<lambda>s. sessionCode s = code \<and> isActive s) ss = None"
    by (auto simp: findIndex_None)
  then show "mark code sid sname now ss = (ss, Status 404 ''Session not found or expired'', [])"
    by (rule mark_not_found)
qed

theorem mark_needs_active_session_witness:
  "findIndex (\<lambda>s. Some (id_s s) = Some 1) demo_registry = Some 0
   \<and> professorId (demo_registry ! 0) = id_u demo_faculty
   \<and> sessionCode (demo_registry ! 0) = ''ATT-1000-4fzyo82m''
   \<and> length demo_registry = 1
   \<and> mark ''ATT-1000-4fzyo82m'' ''CS001'' None 1700
        (fst (end_session demo_faculty (Some 1) 1600 demo_registry))
       = (fst (end_session demo_faculty (Some 1) 1600 demo_registry),
          Status 404 ''Session not found or expired'', [])
   \<and> ''ATT-1-neverissued'' \<notin> sessionCode ` set demo_registry
   \<and> mark ''ATT-1-neverissued'' ''CS001'' None 1700 demo_registry
       = (demo_registry, Status 404 ''Session not found or expired'', [])
   \<and> fst (snd (mark ''ATT-1000-4fzyo82m'' ''CS001'' None 1700 demo_registry))
       = MarkReply True ''Attendance marked successfully'' (Some ''Student CS001'')"
proof -
  have d: "demo_registry =
    [\<lparr> id_s = 1, sessionCode = ''ATT-1000-4fzyo82m'', professorId = ''3'',
       professorName = ''Dr. Faculty'', className = ''Computer Science 101'',
       qrCode = ''data:image/png;base64,ATT-1000-4fzyo82m'', isActive = True,
       startTime = 1001, endTime = None, attendees = [] \<rparr>]"
    by (simp add: demo_registry_def demo_faculty_def demo_codec_def start_def Let_def
        generateSessionCode_def string_of_nat.simps digit_char_def js_or_def)
  have h: "findIndex (\<lambda>s. Some (id_s s) = Some 1) demo_registry = Some 0 \<and>
      professorId (demo_registry ! 0) = id_u demo_faculty \<and>
      (\<forall>j < length demo_registry. j \<noteq> 0 \<longrightarrow>
         \<not> (sessionCode (demo_registry ! j) = sessionCode (demo_registry ! 0) \<and>
            isActive (demo_registry ! j)))"
    by (simp add: d demo_faculty_def)
  have c: "sessionCode (demo_registry ! 0) = ''ATT-1000-4fzyo82m''"
    by (simp add: d)
  have n: "''ATT-1-neverissued'' \<notin> sessionCode ` set demo_registry"
    by (simp add: d)
  note t = mark_needs_active_session
    [where ss = demo_registry and k = "Some 1" and i = 0 and u = demo_faculty and t = 1600
       and code = "''ATT-1-neverissued''" and sid = "''CS001''" and sname = None and now = 1700]
  from t h have e: "mark (sessionCode (demo_registry ! 0)) ''CS001'' None 1700
        (fst (end_session demo_faculty (Some 1) 1600 demo_registry))
       = (fst (end_session demo_faculty (Some 1) 1600 demo_registry),
          Status 404 ''Session not found or expired'', [])"
    by blast
  from t n have e': "mark ''ATT-1-neverissued'' ''CS001'' None 1700 demo_registry
       = (demo_registry, Status 404 ''Session not found or expired'', [])"
    by blast
  have s: "fst (snd (mark ''ATT-1000-4fzyo82m'' ''CS001'' None 1700 demo_registry))
       = MarkReply True ''Attendance marked successfully'' (Some ''Student CS001'')"
    by (simp add: d mark_def Let_def js_or_def)
  from h c n e e' s show ?thesis
    by (simp add: d)
qed

text \<open>
  The claim as stated fails in the registry of the two colliding starts: after the owner
  of session 1 has ended it, a mark against its code finds session 2 and succeeds.
\<close>

theorem mark_after_end_collision:
  "sessionCode (run demo_codec colliding_starts [] ! 0) = ''ATT-1000-4fzyo82m''
   \<and> end_session demo_faculty (Some 1) 5000 (run demo_codec colliding_starts [])
       = (run demo_codec (colliding_starts @ [End demo_faculty (Some 1) 5000]) [],
          EndReply True ''Session ended successfully'', [])
   \<and> isActive (run demo_codec (colliding_starts @ [End demo_faculty (Some 1) 5000]) [] ! 0)
       = False
   \<and> fst (snd (mark ''ATT-1000-4fzyo82m'' ''CS001'' None 6000
        (run demo_codec (colliding_starts @ [End demo_faculty (Some 1) 5000]) [])))
       = MarkReply True ''Attendance marked successfully'' (Some ''Student CS001'')
   \<and> fst (snd (mark ''ATT-1000-4fzyo82m'' ''CS001'' None 6000
        (run demo_codec (colliding_starts @ [End demo_faculty (Some 1) 5000]) [])))
       \<noteq> Status 404 ''Session not found or expired''"
  by (simp add: colliding_starts_def demo_faculty_def other_faculty_def start_def Let_def
      end_session_def mark_def generateSessionCode_def string_of_nat.simps digit_char_def
      js_or_def)

section \<open>Analytics\<close>

lemma reduce_sum: "foldl (\<lambda>sum s. sum + f s) z xs = (z :: int) + sum_list (map f xs)"
  by (induction xs arbitrary: z) (simp_all add: add.assoc)

lemma Math_round_js_div:
  "0 < n \<Longrightarrow> Math_round (js_div a n) = Num (of_int (round (of_int a / of_nat n :: rat)))"
  by (simp add: Math_round_def js_div_def round_def)

lemma js_ge_Num_int: "js_ge (Num (of_int m)) k \<longleftrightarrow> k \<le> m"
  by (simp add: js_ge_def)

lemma deptSummary_eq:
  "deptSummary roster dept =
     (let D = filter (\<lambda>s. department s = dept) roster;
          m = (if D = [] then 0
               else round (of_int (sum_list (map attendance D)) / of_nat (length D) :: rat))
      in \<lparr> da_department = dept,
           avgAttendance = Num (of_int m),
           atRiskStudents = length (filter (\<lambda>s. attendance s < 75) D),
           totalStudents = length D,
           remark = (if 85 \<le> m then ''Excellent''
                     else if 75 \<le> m then ''Good'' else ''Needs Improvement'') \<rparr>)"
proof (cases "filter (\<lambda>s. department s = dept) roster = []")
  case True
  then show ?thesis
    by (simp add: deptSummary_def js_ge_def)
next
  case False
  then have n: "0 < length (filter (\<lambda>s. department s = dept) roster)" by simp
  show ?thesis
    using False
    by (simp add: deptSummary_def Let_def Math_round_js_div[OF n] reduce_sum js_ge_Num_int)
qed

text \<open>
  Claim C7. For a principal the reply lists one summary for each of the five fixed
  department codes. The summary of a department holds the mean of its students'
  attendance rounded to the nearest integer (0 when the department has no student), the
  number of its students with attendance below 75, their total number, and the remark
  \<open>Excellent\<close> from a rounded mean of 85, \<open>Good\<close> from 75, \<open>Needs Improvement\<close> below.
  Attendances 94, 74, 80 and 69 give mean 79 and the remark \<open>Good\<close>.
\<close>

theorem principal_department_summary:
  "(let D = filter (\<lambda>s. department s = dept) roster;
        m = (if D = [] then 0
             else round (of_int (sum_list (map attendance D)) / of_nat (length D) :: rat))
    in deptSummary roster dept =
         \<lparr> da_department = dept,
           avgAttendance = Num (of_int m),
           atRiskStudents = length (filter (\<lambda>s. attendance s < 75) D),
           totalStudents = length D,
           remark = (if 85 \<le> m then ''Excellent''
                     else if 75 \<le> m then ''Good'' else ''Needs Improvement'') \<rparr>)
   \<and> (role u = ''principal'' \<longrightarrow>
        principal_analytics roster u =
          PrincipalReply (map (deptSummary roster) [''CSE'', ''ECE'', ''EEE'', ''IT'', ''MECH'']))
   \<and> (map attendance (filter (\<lambda>s. department s = dept) roster) = [94, 74, 80, 69] \<longrightarrow>
        avgAttendance (deptSummary roster dept) = Num 79 \<and>
        remark (deptSummary roster dept) = ''Good'' \<and>
        atRiskStudents (deptSummary roster dept) = 2 \<and>
        totalStudents (deptSummary roster dept) = 4)"
proof (intro conjI impI)
  show "let D = filter (\<lambda>s. department s = dept) roster;
        m = (if D = [] then 0
             else round (of_int (sum_list (map attendance D)) / of_nat (length D) :: rat))
    in deptSummary roster dept =
         \<lparr> da_department = dept,
           avgAttendance = Num (of_int m),
           atRiskStudents = length (filter (\<lambda>s. attendance s < 75) D),
           totalStudents = length D,
           remark = (if 85 \<le> m then ''Excellent''
                     else if 75 \<le> m then ''Good'' else ''Needs Improvement'') \<rparr>"
    using deptSummary_eq[of roster dept] by (simp add: Let_def)
next
  assume "role u = ''principal''"
  then show "principal_analytics roster u =
          PrincipalReply (map (deptSummary roster) [''CSE'', ''ECE'', ''EEE'', ''IT'', ''MECH''])"
    by (simp add: principal_analytics_def departments_def)
next
  assume a: "map attendance (filter (\<lambda>s. department s = dept) roster) = [94, 74, 80, 69]"
  let ?D = "filter (\<lambda>s. department s = dept) roster"
  from a have ne: "?D \<noteq> []" by auto
  from a have "length (map attendance ?D) = 4" by simp
  then have len: "length ?D = 4" by simp
  have r: "round (of_int (sum_list (map attendance ?D)) / of_nat (length ?D) :: rat) = 79"
    unfolding a len by (simp add: round_def floor_eq_iff)
  have risk: "length (filter (\<lambda>s. attendance s < 75) ?D)
      = length (filter (\<lambda>x. x < 75) (map attendance ?D))"
    by (simp add: filter_map comp_def)
  show "avgAttendance (deptSummary roster dept) = Num 79"
    using ne r by (simp add: deptSummary_eq Let_def)
  show "remark (deptSummary roster dept) = ''Good''"
    using ne r by (simp add: deptSummary_eq Let_def)
  show "atRiskStudents (deptSummary roster dept) = 2"
    using risk unfolding a by (simp add: deptSummary_eq Let_def)
  show "totalStudents (deptSummary roster dept) = 4"
    using len by (simp add: deptSummary_eq Let_def)
qed

theorem principal_department_summary_witness:
  "role demo_principal = ''principal''
   \<and> map attendance (filter (\<lambda>s. department s = ''CSE'') students) = [94, 74, 80, 69]
   \<and> avgAttendance (deptSummary students ''CSE'') = Num 79
   \<and> remark (deptSummary students ''CSE'') = ''Good''
   \<and> atRiskStudents (deptSummary students ''CSE'') = 2
   \<and> totalStudents (deptSummary students ''CSE'') = 4
   \<and> principal_analytics students demo_principal =
       PrincipalReply (map (deptSummary students) [''CSE'', ''ECE'', ''EEE'', ''IT'', ''MECH''])
   \<and> deptSummary students ''CIVIL'' =
       \<lparr> da_department = ''CIVIL'', avgAttendance = Num 0, atRiskStudents = 0,
         totalStudents = 0, remark = ''Needs Improvement'' \<rparr>"
  using principal_department_summary [of "''CSE''" students demo_principal]
    principal_department_summary [of "''CIVIL''" students demo_principal]
  by (simp add: students_def demo_principal_def)

lemma js_div_empty: "Math_round (js_div 0 0) = NaN"
  by (simp add: js_div_def Math_round_def)

text \<open>
  Claim C10. The department-head and faculty handlers divide by the number of students
  of the caller's department without the guard of the principal handler. For a caller
  whose department matches no roster entry the student count is 0, the at-risk list is
  empty and every mean is \<open>Math.round(0 / 0)\<close>, that is \<open>NaN\<close> and not 0, while the
  principal summary of such a department has mean 0.
\<close>

theorem unguarded_means_empty_department:
  "(role u = ''hod'' \<and> (\<forall>s \<in> set roster. Some (department s) \<noteq> department_u u) \<longrightarrow>
      hod_analytics roster u =
        HodReply \<lparr> hod_department = department_u u, hod_totalStudents = 0,
                   hod_avgAttendance = NaN, hod_atRiskStudents = [] \<rparr>)
   \<and> (role u = ''faculty'' \<and> (\<forall>s \<in> set roster. Some (department s) \<noteq> department_u u) \<longrightarrow>
      faculty_analytics roster u =
        FacultyReply [] \<lparr> cs_totalStudents = 0, cs_avgAttendance = NaN, avgMarks = NaN,
                          atRiskCount = 0 \<rparr>)
   \<and> ((\<forall>s \<in> set roster. department s \<noteq> dept) \<longrightarrow>
        avgAttendance (deptSummary roster dept) = Num 0)
   \<and> NaN \<noteq> Num 0"
proof (intro conjI impI)
  assume "role u = ''hod'' \<and> (\<forall>s \<in> set roster. Some (department s) \<noteq> department_u u)"
  then have "role u = ''hod''"
    and "filter (\<lambda>s. Some (department s) = department_u u) roster = []"
    by (simp_all add: filter_empty_conv)
  then show "hod_analytics roster u =
        HodReply \<lparr> hod_department = department_u u, hod_totalStudents = 0,
                   hod_avgAttendance = NaN, hod_atRiskStudents = [] \<rparr>"
    by (simp add: hod_analytics_def js_div_empty)
next
  assume "role u = ''faculty'' \<and> (\<forall>s \<in> set roster. Some (department s) \<noteq> department_u u)"
  then have "role u = ''faculty''"
    and "filter (\<lambda>s. Some (department s) = department_u u) roster = []"
    by (simp_all add: filter_empty_conv)
  then show "faculty_analytics roster u =
        FacultyReply [] \<lparr> cs_totalStudents = 0, cs_avgAttendance = NaN, avgMarks = NaN,
                          atRiskCount = 0 \<rparr>"
    by (simp add: faculty_analytics_def js_div_empty)
next
  assume "\<forall>s \<in> set roster. department s \<noteq> dept"
  then have "filter (\<lambda>s. department s = dept) roster = []"
    by (simp add: filter_empty_conv)
  then show "avgAttendance (deptSummary roster dept) = Num 0"
    by (simp add: deptSummary_def Let_def)
next
  show "NaN \<noteq> Num 0" by simp
qed

theorem unguarded_means_empty_department_witness:
  "role civil_hod = ''hod''
   \<and> list_all (\<lambda>s. Some (department s) \<noteq> department_u civil_hod) students
   \<and> hod_analytics students civil_hod =
       HodReply \<lparr> hod_department = Some ''CIVIL'', hod_totalStudents = 0,
                  hod_avgAttendance = NaN, hod_atRiskStudents = [] \<rparr>
   \<and> role other_faculty = ''faculty''
   \<and> list_all (\<lambda>s. Some (department s) \<noteq> department_u other_faculty) students
   \<and> faculty_analytics students other_faculty =
       FacultyReply [] \<lparr> cs_totalStudents = 0, cs_avgAttendance = NaN, avgMarks = NaN,
                         atRiskCount = 0 \<rparr>
   \<and> avgAttendance (deptSummary students ''CIVIL'') = Num 0"
  using unguarded_means_empty_department [of civil_hod students "''CIVIL''"]
    unguarded_means_empty_department [of other_faculty students "''CIVIL''"]
  by (simp add: students_def civil_hod_def other_faculty_def)

end
